theory Spec2Isabelle
  imports Complex_Main "HOL-Library.Log_Nat"
begin

section \<open>Exceptions\<close>

text \<open>
  The exceptions that the modelled code can raise. \<open>ValueError\<close> is what the validators of
  \<^verbatim>\<open>validation_config.py\<close> and \<^verbatim>\<open>datetime.strptime\<close> raise; pydantic turns a
  \<open>ValueError\<close> raised inside a validator, and every failed field check, into its
  \<open>ValidationError\<close>, which is what the construction of a model raises.
\<close>

datatype error = ZeroDivisionError | OverflowError | ValueError | ValidationError

section \<open>Python floats\<close>

text \<open>
  \<^verbatim>\<open>count_diff / count_source * 100\<close> is a true division of two Python ints followed by a
  float multiplication. Both are correctly rounded IEEE binary64 operations (round to
  nearest, ties to even), so the result is in general not the exact quotient. A float
  that occurs here is a non-negative finite double, kept as the rational it denotes, or
  \<open>+inf\<close>.
\<close>

datatype pyfloat = Finite rat | PosInf

definition round_half_even :: "rat \<Rightarrow> int" where
  "round_half_even x =
     (let f = \<lfloor>x\<rfloor>; r = x - of_int f
      in if r < 1 / 2 then f else if 1 / 2 < r then f + 1 else if even f then f else f + 1)"

definition floor_log2 :: "rat \<Rightarrow> int" where
  \<comment> \<open>for \<open>0 < q\<close>: the \<open>k\<close> with \<open>2 powi k \<le> q < 2 powi (k + 1)\<close>\<close>
  "floor_log2 q =
     (if 1 \<le> q then bitlen \<lfloor>q\<rfloor> - 1
      else let j = bitlen \<lfloor>1 / q\<rfloor> - 1 in if q = 2 powi (- j) then - j else - j - 1)"

definition round_double :: "rat \<Rightarrow> rat" where
  \<comment> \<open>the nearest binary64 value of \<open>q \<ge> 0\<close>: 53 significant bits, least exponent \<open>-1074\<close>;
      a result of at least \<open>2 ^ 1024\<close> stands for overflow\<close>
  "round_double q =
     (if q \<le> 0 then 0
      else let e = max (floor_log2 q - 52) (- 1074)
           in of_int (round_half_even (q / 2 powi e)) * 2 powi e)"

definition py_truediv :: "nat \<Rightarrow> nat \<Rightarrow> error + pyfloat" where
  \<comment> \<open>\<^verbatim>\<open>a / b\<close> on non-negative ints\<close>
  "py_truediv a b =
     (if b = 0 then Inl ZeroDivisionError
      else let r = round_double (of_nat a / of_nat b)
           in if 2 ^ 1024 \<le> r then Inl OverflowError else Inr (Finite r))"

fun py_float_mul_int :: "pyfloat \<Rightarrow> nat \<Rightarrow> pyfloat" where
  \<comment> \<open>\<^verbatim>\<open>x * n\<close> for a float \<open>x \<ge> 0\<close> and an int \<open>0 < n < 2 ^ 53\<close>: overflow gives \<open>inf\<close>\<close>
  "py_float_mul_int (Finite x) n =
     (let r = round_double (x * of_nat n) in if 2 ^ 1024 \<le> r then PosInf else Finite r)"
| "py_float_mul_int PosInf n = PosInf"

fun py_float_le_int :: "pyfloat \<Rightarrow> int \<Rightarrow> bool" where
  \<comment> \<open>\<^verbatim>\<open>x <= t\<close> for a float and an int compares the exact values\<close>
  "py_float_le_int (Finite x) t = (x \<le> of_int t)"
| "py_float_le_int PosInf t = False"

section \<open>Datasets\<close>

text \<open>
  A \<^verbatim>\<open>DataFrame\<close> of the engine: the ordered column names and the rows. A cell is the
  string that the engine's cast to string gives for the value, or \<open>None\<close> for SQL NULL.
  \<^verbatim>\<open>count()\<close> is the number of rows.
\<close>

type_synonym row = "string option list"

record DataFrame =
  columns :: "string list"
  rows :: "row list"

definition df_count :: "DataFrame \<Rightarrow> nat" where
  "df_count df = length (rows df)"

section \<open>Row-count check\<close>

record row_count_result =
  count_source :: nat
  count_target :: nat
  count_diff :: nat
  percentage_diff :: pyfloat
  threshold :: int
  is_passed :: bool

definition validate_row_count :: "DataFrame \<Rightarrow> DataFrame \<Rightarrow> int \<Rightarrow> error + row_count_result" where
  "validate_row_count df_source df_target thr =
     (let cs = df_count df_source;
          ct = df_count df_target;
          cd = nat \<bar>int cs - int ct\<bar>
      in case py_truediv cd cs of
           Inl e \<Rightarrow> Inl e
         | Inr q \<Rightarrow>
             (let pd = py_float_mul_int q 100
              in Inr \<lparr>count_source = cs, count_target = ct, count_diff = cd,
                      percentage_diff = pd, threshold = thr,
                      is_passed = (if py_float_le_int pd thr then True else False)\<rparr>))"


section \<open>Content check\<close>

text \<open>
  The engine operations that \<^verbatim>\<open>validate_content\<close> calls. \<^verbatim>\<open>concat_ws(sep, *)\<close> joins the
  values of a row with the separator and skips NULL cells;
  \<^verbatim>\<open>selectExpr("concat_ws('||', *) as row")\<close> leaves one column, \<open>row\<close>, holding that string.
  \<^verbatim>\<open>distinct()\<close> drops repeated rows and \<^verbatim>\<open>subtract\<close> is SQL's \<open>EXCEPT DISTINCT\<close>.
\<close>

fun join :: "string \<Rightarrow> string list \<Rightarrow> string" where
  "join sep [] = []"
| "join sep [v] = v"
| "join sep (v # w # vs) = v @ sep @ join sep (w # vs)"

definition concat_ws :: "string \<Rightarrow> row \<Rightarrow> string" where
  "concat_ws sep cells = join sep (List.map_filter (\<lambda>c. c) cells)"

definition selectExpr_concat_ws :: "DataFrame \<Rightarrow> DataFrame" where
  "selectExpr_concat_ws df =
     \<lparr>columns = [''row''], rows = map (\<lambda>r. [Some (concat_ws ''||'' r)]) (rows df)\<rparr>"

definition distinct_rows :: "DataFrame \<Rightarrow> DataFrame" where
  "distinct_rows df = df\<lparr>rows := remdups (rows df)\<rparr>"

definition subtract :: "DataFrame \<Rightarrow> DataFrame \<Rightarrow> DataFrame" where
  "subtract a b = a\<lparr>rows := remdups (filter (\<lambda>r. r \<notin> set (rows b)) (rows a))\<rparr>"

text \<open>
  \<^verbatim>\<open>validate_content\<close> returns \<^verbatim>\<open>None\<close>: what it produces is its log. The summary it logs
  is a record, with \<open>None\<close> for a count logged as \<^verbatim>\<open>N/A\<close>; the two schema lines of the
  mismatch branch are \<open>SchemaDump\<close>. Next to the log the model returns the engine
  operations that the call went through, in program order.
\<close>

record content_summary =
  schema_match :: bool
  source_not_in_target :: "nat option"
  target_not_in_source :: "nat option"
  validation_passed :: bool

datatype log_record = ContentResults content_summary | SchemaDump "string list"

datatype engine_call = SelectExpr | Distinct | Subtract | Count

definition validate_content :: "DataFrame \<Rightarrow> DataFrame \<Rightarrow> log_record list \<times> engine_call list" where
  "validate_content df_source df_target =
     (if columns df_source \<noteq> columns df_target
      then ([ContentResults \<lparr>schema_match = False, source_not_in_target = None,
                             target_not_in_source = None, validation_passed = False\<rparr>,
             SchemaDump (columns df_source), SchemaDump (columns df_target)],
            [])
      else
        let source_hash = distinct_rows (selectExpr_concat_ws df_source);
            target_hash = distinct_rows (selectExpr_concat_ws df_target);
            diff_source = subtract source_hash target_hash;
            diff_target = subtract target_hash source_hash;
            diff_source_count = df_count diff_source;
            diff_target_count = df_count diff_target;
            passed = (diff_source_count = 0 \<and> diff_target_count = 0)
        in ([ContentResults \<lparr>schema_match = True, source_not_in_target = Some diff_source_count,
                               target_not_in_source = Some diff_target_count,
                               validation_passed = passed\<rparr>],
            [SelectExpr, Distinct, SelectExpr, Distinct, Subtract, Subtract, Count, Count]))"





section \<open>Timestamps\<close>

text \<open>
  A \<^verbatim>\<open>datetime\<close> without time zone. \<^verbatim>\<open>replace\<close> with constant fields is a record update:
  on a valid timestamp, day 1 and zero time fields are always valid, so it cannot raise.
\<close>

record datetime =
  year :: nat
  month :: nat
  day :: nat
  hour :: nat
  minute :: nat
  second :: nat
  microsecond :: nat

definition is_leap :: "nat \<Rightarrow> bool" where
  "is_leap y = (y mod 4 = 0 \<and> (y mod 100 \<noteq> 0 \<or> y mod 400 = 0))"

definition days_in_month :: "nat \<Rightarrow> nat \<Rightarrow> nat" where
  "days_in_month y m =
     (if m = 2 then (if is_leap y then 29 else 28)
      else if m = 4 \<or> m = 6 \<or> m = 9 \<or> m = 11 then 30 else 31)"

definition valid_datetime :: "datetime \<Rightarrow> bool" where
  "valid_datetime dt =
     (1 \<le> year dt \<and> year dt \<le> 9999 \<and> 1 \<le> month dt \<and> month dt \<le> 12 \<and>
      1 \<le> day dt \<and> day dt \<le> days_in_month (year dt) (month dt) \<and>
      hour dt \<le> 23 \<and> minute dt \<le> 59 \<and> second dt \<le> 59 \<and> microsecond dt \<le> 999999)"

datatype granularity = Monthly | Daily | Hourly

definition truncate_datetime :: "granularity option \<Rightarrow> datetime \<Rightarrow> datetime" where
  \<comment> \<open>the \<^verbatim>\<open>if\<close>/\<^verbatim>\<open>elif\<close>/\<^verbatim>\<open>else\<close> of \<^verbatim>\<open>set_process_datetime\<close>; the \<^verbatim>\<open>else\<close> takes \<open>hourly\<close> and \<open>None\<close>\<close>
  "truncate_datetime g dt =
     (if g = Some Monthly
      then dt\<lparr>day := 1, hour := 0, minute := 0, second := 0, microsecond := 0\<rparr>
      else if g = Some Daily
      then dt\<lparr>hour := 0, minute := 0, second := 0, microsecond := 0\<rparr>
      else dt\<lparr>minute := 0, second := 0, microsecond := 0\<rparr>)"

section \<open>Parsing the override timestamp\<close>

text \<open>
  \<^verbatim>\<open>datetime.strptime(s, "%Y-%m-%d %H:%M:%S")\<close> of the standard library. It matches the
  string from its start against the regular expression built from the format,
  \<^verbatim>\<open>(\d\d\d\d)-(1[0-2]|0[1-9]|[1-9])-(3[0-1]|[1-2]\d|0[1-9]|[1-9]| [1-9])\s+\<close>
  \<^verbatim>\<open>(2[0-3]|[0-1]\d|\d):([0-5]\d|\d):(6[0-1]|[0-5]\d|\d)\<close>, raises \<open>ValueError\<close> when there is
  no match or when text remains after the match, and builds the \<^verbatim>\<open>datetime\<close>, which raises
  \<open>ValueError\<close> for year 0, a day the month does not have, or second 60 and 61.
  A matcher is a list of successes in the order in which the backtracking engine tries
  them, so the match found is the head of the list. Strings are lists of 8-bit
  characters: the decimal digits among them are \<open>0\<close> to \<open>9\<close>.
\<close>

type_synonym 'a matcher = "string \<Rightarrow> ('a \<times> string) list"

definition digit_in :: "string \<Rightarrow> nat matcher" where
  \<comment> \<open>one character of the class, read as a decimal digit\<close>
  "digit_in cls s =
     (case s of [] \<Rightarrow> []
      | c # r \<Rightarrow> if c \<in> set cls then [(of_char c - 48, r)] else [])"

definition two_digits :: "string \<Rightarrow> string \<Rightarrow> nat matcher" where
  "two_digits cls1 cls2 s =
     concat (map (\<lambda>(a, r1). map (\<lambda>(b, r2). (10 * a + b, r2)) (digit_in cls2 r1))
               (digit_in cls1 s))"

definition literal :: "char \<Rightarrow> string \<Rightarrow> string list" where
  "literal c s = (case s of [] \<Rightarrow> [] | x # r \<Rightarrow> if x = c then [r] else [])"

definition alternatives :: "'a matcher list \<Rightarrow> 'a matcher" where
  "alternatives ms s = concat (map (\<lambda>m. m s) ms)"

definition is_space :: "char \<Rightarrow> bool" where
  \<comment> \<open>the characters below 256 that \<^verbatim>\<open>\s\<close> matches in a \<^verbatim>\<open>str\<close> pattern\<close>
  "is_space c =
     (let n = (of_char c :: nat)
      in (9 \<le> n \<and> n \<le> 13) \<or> (28 \<le> n \<and> n \<le> 32) \<or> n = 133 \<or> n = 160)"

definition spaces1 :: "string \<Rightarrow> string list" where
  \<comment> \<open>\<^verbatim>\<open>\s+\<close>: greedy, the longest run first\<close>
  "spaces1 s = map (\<lambda>k. drop k s) (rev [1 ..< Suc (length (takeWhile is_space s))])"

definition digits :: string where
  "digits = ''0123456789''"

definition match_Y :: "nat matcher" where
  "match_Y s =
     concat (map (\<lambda>(a, r1). map (\<lambda>(b, r2). (100 * a + b, r2)) (two_digits digits digits r1))
               (two_digits digits digits s))"

definition match_m :: "nat matcher" where
  "match_m = alternatives [two_digits ''1'' ''012'', two_digits ''0'' ''123456789'',
                           digit_in ''123456789'']"

definition match_d :: "nat matcher" where
  "match_d = alternatives [two_digits ''3'' ''01'', two_digits ''12'' digits,
                           two_digits ''0'' ''123456789'', digit_in ''123456789'',
                           (\<lambda>s. concat (map (digit_in ''123456789'') (literal CHR '' '' s)))]"

definition match_H :: "nat matcher" where
  "match_H = alternatives [two_digits ''2'' ''0123'', two_digits ''01'' digits, digit_in digits]"

definition match_M :: "nat matcher" where
  "match_M = alternatives [two_digits ''012345'' digits, digit_in digits]"

definition match_S :: "nat matcher" where
  "match_S = alternatives [two_digits ''6'' ''01'', two_digits ''012345'' digits, digit_in digits]"

definition match_format :: "datetime matcher" where
  \<comment> \<open>the whole expression; each line continues on the text left by the line before\<close>
  "match_format s =
     concat (map (\<lambda>(y, r1).
     concat (map (\<lambda>r2.
     concat (map (\<lambda>(mo, r3).
     concat (map (\<lambda>r4.
     concat (map (\<lambda>(d, r5).
     concat (map (\<lambda>r6.
     concat (map (\<lambda>(h, r7).
     concat (map (\<lambda>r8.
     concat (map (\<lambda>(mi, r9).
     concat (map (\<lambda>r10.
             map (\<lambda>(se, r11).
                   (\<lparr>year = y, month = mo, day = d, hour = h, minute = mi, second = se,
                     microsecond = 0\<rparr>, r11))
       (match_S r10))
       (literal CHR '':'' r9)))
       (match_M r8)))
       (literal CHR '':'' r7)))
       (match_H r6)))
       (spaces1 r5)))
       (match_d r4)))
       (literal CHR ''-'' r3)))
       (match_m r2)))
       (literal CHR ''-'' r1)))
       (match_Y s))"

definition strptime :: "string \<Rightarrow> error + datetime" where
  "strptime s =
     (case match_format s of
        [] \<Rightarrow> Inl ValueError
      | (dt, rest) # _ \<Rightarrow>
          if rest \<noteq> [] then Inl ValueError
          else if valid_datetime dt then Inr dt else Inl ValueError)"

section \<open>Configuration models\<close>

text \<open>
  The pydantic models of \<^verbatim>\<open>validation_config.py\<close>. A model is built from keyword arguments:
  \<open>Omitted\<close> is a key that is absent, \<open>Given v\<close> a key with a value of the field's Python
  type (what pydantic's coercion of the raw value yields). Every failed check of a
  construction is pydantic's \<open>ValidationError\<close>.
\<close>

datatype 'a kwarg = Omitted | Given 'a

definition required :: "'a kwarg \<Rightarrow> error + 'a" where
  "required k = (case k of Omitted \<Rightarrow> Inl ValidationError | Given v \<Rightarrow> Inr v)"

definition with_default :: "'a \<Rightarrow> 'a kwarg \<Rightarrow> 'a" where
  "with_default d k = (case k of Omitted \<Rightarrow> d | Given v \<Rightarrow> v)"

definition get :: "'a option kwarg \<Rightarrow> 'a option" where
  \<comment> \<open>\<^verbatim>\<open>values.get(key)\<close>: \<^verbatim>\<open>None\<close> for an absent key\<close>
  "get k = (case k of Omitted \<Rightarrow> None | Given v \<Rightarrow> v)"

definition literal_default_None :: "(string \<Rightarrow> 'a option) \<Rightarrow> string kwarg \<Rightarrow> error + 'a option" where
  \<comment> \<open>a field \<^verbatim>\<open>Literal[...] = None\<close>: the default is not validated, a given value must be
      one of the literals\<close>
  "literal_default_None parse k =
     (case k of
        Omitted \<Rightarrow> Inr None
      | Given s \<Rightarrow> (case parse s of None \<Rightarrow> Inl ValidationError | Some v \<Rightarrow> Inr (Some v)))"

definition literal_required :: "(string \<Rightarrow> 'a option) \<Rightarrow> string kwarg \<Rightarrow> error + 'a" where
  "literal_required parse k =
     (case k of
        Omitted \<Rightarrow> Inl ValidationError
      | Given s \<Rightarrow> (case parse s of None \<Rightarrow> Inl ValidationError | Some v \<Rightarrow> Inr v))"

subsection \<open>Args\<close>

datatype spark_master = Yarn | Local

record Args =
  config :: string
  datetime :: "string option"
  verbose :: bool
  spark_master :: spark_master

subsection \<open>Setting\<close>

datatype validation_type = Hdfs_hdfs | Hdfs_jdbc | Jdbc_hdfs | Jdbc_jdbc

definition granularity_literal :: "string \<Rightarrow> granularity option" where
  "granularity_literal s =
     (if s = ''monthly'' then Some Monthly
      else if s = ''daily'' then Some Daily
      else if s = ''hourly'' then Some Hourly else None)"

definition validation_type_literal :: "string \<Rightarrow> validation_type option" where
  "validation_type_literal s =
     (if s = ''hdfs-hdfs'' then Some Hdfs_hdfs
      else if s = ''hdfs-jdbc'' then Some Hdfs_jdbc
      else if s = ''jdbc-hdfs'' then Some Jdbc_hdfs
      else if s = ''jdbc-jdbc'' then Some Jdbc_jdbc else None)"

record Setting =
  validation_name :: string
  validation_threshold :: int
  validate_content_flag :: bool
  defaulttimedelay :: int
  source_name :: "string option"
  destination_name :: "string option"
  summary_log :: string
  granularity :: "granularity option"
  validation_type :: "validation_type option"

record Setting_kwargs =
  kw_validation_name :: "string kwarg"
  kw_validation_threshold :: "int kwarg"
  kw_validate_content :: "bool kwarg"
  kw_defaulttimedelay :: "int kwarg"
  kw_source_name :: "string kwarg"
  kw_destination_name :: "string kwarg"
  kw_summary_log :: "string kwarg"
  kw_granularity :: "string kwarg"
  kw_validation_type :: "string kwarg"

definition threshold_field :: "int kwarg \<Rightarrow> error + int" where
  \<comment> \<open>\<^verbatim>\<open>validation_threshold: int = Field(le=100)\<close>\<close>
  "threshold_field k =
     (case k of
        Omitted \<Rightarrow> Inl ValidationError
      | Given t \<Rightarrow> if t \<le> 100 then Inr t else Inl ValidationError)"

definition Setting_validate :: "Setting_kwargs \<Rightarrow> error + Setting" where
  "Setting_validate kw =
     (case (required (kw_validation_name kw), threshold_field (kw_validation_threshold kw),
            required (kw_summary_log kw),
            literal_default_None granularity_literal (kw_granularity kw),
            literal_default_None validation_type_literal (kw_validation_type kw)) of
        (Inr name, Inr thr, Inr slog, Inr g, Inr vt) \<Rightarrow>
          Inr \<lparr>validation_name = name, validation_threshold = thr,
               validate_content_flag = with_default False (kw_validate_content kw),
               defaulttimedelay = with_default 0 (kw_defaulttimedelay kw),
               source_name = (case kw_source_name kw of Omitted \<Rightarrow> None | Given s \<Rightarrow> Some s),
               destination_name =
                 (case kw_destination_name kw of Omitted \<Rightarrow> None | Given s \<Rightarrow> Some s),
               summary_log = slog, granularity = g, validation_type = vt\<rparr>
      | _ \<Rightarrow> Inl ValidationError)"

subsection \<open>Datasource\<close>

record DatabaseOptions =
  url :: string
  dbtable :: "string option"
  query :: "string option"
  db_other :: "(string \<times> string) list"

record DatabaseOptions_kwargs =
  kw_url :: "string kwarg"
  kw_dbtable :: "string option kwarg"
  kw_query :: "string option kwarg"
  kw_db_other :: "(string \<times> string) list"

definition truthy_str :: "string option \<Rightarrow> bool" where
  "truthy_str v = (v \<noteq> None \<and> v \<noteq> Some [])"

definition check_dbtable_or_query :: "DatabaseOptions_kwargs \<Rightarrow> error + DatabaseOptions_kwargs" where
  "check_dbtable_or_query values =
     (let dbtable = get (kw_dbtable values); query = get (kw_query values)
      in if \<not> (truthy_str dbtable \<or> truthy_str query) then Inl ValueError
         else if truthy_str dbtable \<and> truthy_str query then Inl ValueError
         else Inr values)"

definition DatabaseOptions_validate :: "DatabaseOptions_kwargs \<Rightarrow> error + DatabaseOptions" where
  "DatabaseOptions_validate kw =
     (case check_dbtable_or_query kw of
        Inl e \<Rightarrow> Inl ValidationError
      | Inr values \<Rightarrow>
          (case required (kw_url values) of
             Inl e \<Rightarrow> Inl ValidationError
           | Inr u \<Rightarrow> Inr \<lparr>url = u, dbtable = get (kw_dbtable values),
                           query = get (kw_query values), db_other = kw_db_other values\<rparr>))"

record DatabaseConfig =
  db_format :: string
  db_options :: DatabaseOptions

record DatabaseConfig_kwargs =
  kw_db_format :: "string kwarg"
  kw_db_options :: "DatabaseOptions_kwargs kwarg"

definition DatabaseConfig_validate :: "DatabaseConfig_kwargs \<Rightarrow> error + DatabaseConfig" where
  "DatabaseConfig_validate kw =
     (case (literal_required (\<lambda>s. if s = ''jdbc'' then Some s else None) (kw_db_format kw),
            kw_db_options kw) of
        (Inr f, Given okw) \<Rightarrow>
          (case DatabaseOptions_validate okw of
             Inl e \<Rightarrow> Inl ValidationError
           | Inr opts \<Rightarrow> Inr \<lparr>db_format = f, db_options = opts\<rparr>)
      | _ \<Rightarrow> Inl ValidationError)"

datatype file_format = Csv | Parquet

datatype FileOptions = CsvOptions "(string \<times> string) list" | ParquetOptions "(string \<times> string) list"

record FileConfig =
  file_format :: file_format
  path :: string
  file_options :: FileOptions

record FileConfig_kwargs =
  kw_file_format :: "string kwarg"
  kw_path :: "string kwarg"
  kw_file_options :: "(string \<times> string) list option kwarg"

definition file_format_literal :: "string \<Rightarrow> file_format option" where
  "file_format_literal s =
     (if s = ''csv'' then Some Csv else if s = ''parquet'' then Some Parquet else None)"

definition set_file_options :: "file_format \<Rightarrow> (string \<times> string) list option \<Rightarrow> FileOptions" where
  \<comment> \<open>the options object that the validator builds for a format that is one of the literals\<close>
  "set_file_options f opts =
     (let given = (case opts of None \<Rightarrow> [] | Some kv \<Rightarrow> kv)
      in case f of Csv \<Rightarrow> CsvOptions given | Parquet \<Rightarrow> ParquetOptions given)"

definition FileConfig_validate :: "FileConfig_kwargs \<Rightarrow> error + FileConfig" where
  "FileConfig_validate kw =
     (case (literal_required file_format_literal (kw_file_format kw), required (kw_path kw)) of
        (Inr f, Inr p) \<Rightarrow>
          Inr \<lparr>file_format = f, path = p,
               file_options = set_file_options f (get (kw_file_options kw))\<rparr>
      | _ \<Rightarrow> Inl ValidationError)"

datatype datasource_type = Database | File

definition datasource_type_literal :: "string \<Rightarrow> datasource_type option" where
  "datasource_type_literal s =
     (if s = ''database'' then Some Database else if s = ''file'' then Some File else None)"

record Datasource =
  ds_type :: datasource_type
  database_config :: "DatabaseConfig option"
  file_config :: "FileConfig option"

record Datasource_kwargs =
  kw_type :: "string kwarg"
  kw_database_config :: "DatabaseConfig_kwargs option kwarg"
  kw_file_config :: "FileConfig_kwargs option kwarg"

definition truthy_database_config :: "DatabaseConfig_kwargs option \<Rightarrow> bool" where
  \<comment> \<open>truth value of the raw entry: \<^verbatim>\<open>None\<close> and the empty dict are false\<close>
  "truthy_database_config v =
     (case v of None \<Rightarrow> False
      | Some d \<Rightarrow> \<not> (kw_db_format d = Omitted \<and> kw_db_options d = Omitted))"

definition truthy_file_config :: "FileConfig_kwargs option \<Rightarrow> bool" where
  "truthy_file_config v =
     (case v of None \<Rightarrow> False
      | Some f \<Rightarrow> \<not> (kw_file_format f = Omitted \<and> kw_path f = Omitted \<and> kw_file_options f = Omitted))"

definition check_target_config :: "Datasource_kwargs \<Rightarrow> error + Datasource_kwargs" where
  "check_target_config values =
     (let ds_type = (case kw_type values of Omitted \<Rightarrow> None | Given s \<Rightarrow> Some s)
      in if ds_type = Some ''database'' \<and> \<not> truthy_database_config (get (kw_database_config values))
         then Inl ValueError
         else if ds_type = Some ''file'' \<and> \<not> truthy_file_config (get (kw_file_config values))
         then Inl ValueError
         else Inr values)"

definition optional_model :: "('k \<Rightarrow> error + 'm) \<Rightarrow> 'k option kwarg \<Rightarrow> error + 'm option" where
  \<comment> \<open>a field \<^verbatim>\<open>Optional[Model] = None\<close>\<close>
  "optional_model validate k =
     (case get k of
        None \<Rightarrow> Inr None
      | Some raw \<Rightarrow> (case validate raw of Inl e \<Rightarrow> Inl ValidationError | Inr m \<Rightarrow> Inr (Some m)))"

definition Datasource_validate :: "Datasource_kwargs \<Rightarrow> error + Datasource" where
  "Datasource_validate kw =
     (case check_target_config kw of
        Inl e \<Rightarrow> Inl ValidationError
      | Inr values \<Rightarrow>
          (case (literal_required datasource_type_literal (kw_type values),
                 optional_model DatabaseConfig_validate (kw_database_config values),
                 optional_model FileConfig_validate (kw_file_config values)) of
             (Inr t, Inr d, Inr f) \<Rightarrow> Inr \<lparr>ds_type = t, database_config = d, file_config = f\<rparr>
           | _ \<Rightarrow> Inl ValidationError))"

subsection \<open>ValidationConfig and its two validators\<close>

record ValidationConfig =
  args :: Args
  setting :: Setting
  source :: Datasource
  target :: Datasource
  process_datetime :: "datetime option"

text \<open>
  \<^verbatim>\<open>set_process_datetime\<close>. The wall clock is a parameter: \<open>clock d\<close> is the value of
  \<^verbatim>\<open>datetime.now() - timedelta(seconds=d)\<close>, or the exception that the subtraction raises.
\<close>

definition initial_process_datetime :: "(int \<Rightarrow> error + datetime) \<Rightarrow> ValidationConfig \<Rightarrow> error + datetime" where
  \<comment> \<open>\<^verbatim>\<open>_process_datetime\<close> before the truncation; an empty string is false, as \<^verbatim>\<open>None\<close> is\<close>
  "initial_process_datetime clock values =
     (case datetime (args values) of
        None \<Rightarrow> clock (defaulttimedelay (setting values))
      | Some s \<Rightarrow> if s \<noteq> [] then strptime s else clock (defaulttimedelay (setting values)))"

definition set_process_datetime :: "(int \<Rightarrow> error + datetime) \<Rightarrow> ValidationConfig \<Rightarrow> error + ValidationConfig" where
  "set_process_datetime clock values =
     (case initial_process_datetime clock values of
        Inl e \<Rightarrow> Inl e
      | Inr p \<Rightarrow>
          Inr (values\<lparr>process_datetime :=
                 Some (truncate_datetime (granularity (setting values)) p)\<rparr>))"

text \<open>
  \<^verbatim>\<open>set_strftime_string\<close>. \<^verbatim>\<open>datetime.strftime\<close> belongs to the platform's C library and is
  a parameter, \<open>strftime dt template\<close>. Whatever is raised inside the \<^verbatim>\<open>try\<close> block is
  raised again as \<open>ValueError\<close>.
\<close>

definition render_query :: "(datetime \<Rightarrow> string \<Rightarrow> error + string) \<Rightarrow> datetime \<Rightarrow> DatabaseConfig option \<Rightarrow> error + DatabaseConfig option" where
  \<comment> \<open>\<^verbatim>\<open>if config and config.options.query: config.options.query = strftime(...)\<close>\<close>
  "render_query strftime p cfg =
     (case cfg of
        None \<Rightarrow> Inr None
      | Some c \<Rightarrow>
          (case query (db_options c) of
             None \<Rightarrow> Inr (Some c)
           | Some q \<Rightarrow>
               if q = [] then Inr (Some c)
               else (case strftime p q of
                       Inl e \<Rightarrow> Inl e
                     | Inr q' \<Rightarrow> Inr (Some (c\<lparr>db_options := (db_options c)\<lparr>query := Some q'\<rparr>\<rparr>)))))"

definition render_path :: "(datetime \<Rightarrow> string \<Rightarrow> error + string) \<Rightarrow> datetime \<Rightarrow> FileConfig option \<Rightarrow> error + FileConfig option" where
  \<comment> \<open>\<^verbatim>\<open>if config and config.path: config.path = strftime(...)\<close>\<close>
  "render_path strftime p cfg =
     (case cfg of
        None \<Rightarrow> Inr None
      | Some c \<Rightarrow>
          if path c = [] then Inr (Some c)
          else (case strftime p (path c) of
                  Inl e \<Rightarrow> Inl e
                | Inr p' \<Rightarrow> Inr (Some (c\<lparr>path := p'\<rparr>))))"

definition set_strftime_string :: "(datetime \<Rightarrow> string \<Rightarrow> error + string) \<Rightarrow> ValidationConfig \<Rightarrow> error + ValidationConfig" where
  "set_strftime_string strftime values =
     (case process_datetime values of
        None \<Rightarrow> Inl ValueError
      | Some p \<Rightarrow>
     (case strftime p (summary_log (setting values)) of
        Inl e \<Rightarrow> Inl ValueError
      | Inr slog \<Rightarrow>
     (case render_query strftime p (database_config (source values)) of
        Inl e \<Rightarrow> Inl ValueError
      | Inr source_db \<Rightarrow>
     (case render_query strftime p (database_config (target values)) of
        Inl e \<Rightarrow> Inl ValueError
      | Inr target_db \<Rightarrow>
     (case render_path strftime p (file_config (source values)) of
        Inl e \<Rightarrow> Inl ValueError
      | Inr source_file \<Rightarrow>
     (case render_path strftime p (file_config (target values)) of
        Inl e \<Rightarrow> Inl ValueError
      | Inr target_file \<Rightarrow>
          Inr (values\<lparr>setting := (setting values)\<lparr>summary_log := slog\<rparr>,
                      source := (source values)\<lparr>database_config := source_db,
                                                file_config := source_file\<rparr>,
                      target := (target values)\<lparr>database_config := target_db,
                                                file_config := target_file\<rparr>\<rparr>)))))))"





subsection \<open>A rendering of the numeric directives\<close>

text \<open>
  What \<^verbatim>\<open>strftime\<close> gives on a template whose directives are among \<^verbatim>\<open>%Y %m %d %H %M %S\<close>
  and \<^verbatim>\<open>%%\<close>: the zero-padded decimal fields of the timestamp, every other character
  copied. \<open>numeric_template\<close> says that a template has no other directive;
  \<open>render_numeric\<close> copies a directive it does not know.
\<close>

definition digit_char :: "nat \<Rightarrow> char" where
  "digit_char n = ''0123456789'' ! (n mod 10)"

definition two_digit :: "nat \<Rightarrow> string" where
  "two_digit n = [digit_char (n div 10), digit_char n]"

definition four_digit :: "nat \<Rightarrow> string" where
  "four_digit n = [digit_char (n div 1000), digit_char (n div 100), digit_char (n div 10), digit_char n]"

definition directive :: "datetime \<Rightarrow> char \<Rightarrow> string" where
  "directive dt d =
     (if d = CHR ''Y'' then four_digit (year dt)
      else if d = CHR ''m'' then two_digit (month dt)
      else if d = CHR ''d'' then two_digit (day dt)
      else if d = CHR ''H'' then two_digit (hour dt)
      else if d = CHR ''M'' then two_digit (minute dt)
      else if d = CHR ''S'' then two_digit (second dt)
      else if d = CHR ''%'' then ''%''
      else [CHR ''%'', d])"

fun render_numeric :: "datetime \<Rightarrow> string \<Rightarrow> string" where
  "render_numeric dt [] = []"
| "render_numeric dt [c] = [c]"
| "render_numeric dt (c # d # r) =
     (if c = CHR ''%'' then directive dt d @ render_numeric dt r
      else c # render_numeric dt (d # r))"


subsection \<open>Construction of a ValidationConfig\<close>

record ValidationConfig_kwargs =
  kw_args :: Args
  kw_setting :: "Setting_kwargs kwarg"
  kw_source :: "Datasource_kwargs kwarg"
  kw_target :: "Datasource_kwargs kwarg"

definition validator_error :: "error \<Rightarrow> error" where
  \<comment> \<open>pydantic reports a \<open>ValueError\<close> of a validator as \<open>ValidationError\<close>; other exceptions
      pass through\<close>
  "validator_error e = (if e = ValueError then ValidationError else e)"

definition ValidationConfig_validate :: "(int \<Rightarrow> error + datetime) \<Rightarrow> (datetime \<Rightarrow> string \<Rightarrow> error + string) \<Rightarrow> ValidationConfig_kwargs \<Rightarrow> error + ValidationConfig" where
  "ValidationConfig_validate clock strftime kw =
     (case (kw_setting kw, kw_source kw, kw_target kw) of
        (Given skw, Given src, Given tgt) \<Rightarrow>
          (case (Setting_validate skw, Datasource_validate src, Datasource_validate tgt) of
             (Inr s, Inr a, Inr b) \<Rightarrow>
               (case set_process_datetime clock
                       \<lparr>args = kw_args kw, setting = s, source = a, target = b,
                        process_datetime = None\<rparr> of
                  Inl e \<Rightarrow> Inl (validator_error e)
                | Inr v \<Rightarrow>
                    (case set_strftime_string strftime v of
                       Inl e \<Rightarrow> Inl (validator_error e)
                     | Inr v' \<Rightarrow> Inr v'))
           | _ \<Rightarrow> Inl ValidationError)
      | _ \<Rightarrow> Inl ValidationError)"

section \<open>The templated fields, and example configurations\<close>





text \<open>
  \<open>strftime_numeric\<close> stands for the library's \<^verbatim>\<open>strftime\<close> on templates of numeric
  directives. The configurations below are the concrete inputs of the examples.
\<close>

definition strftime_numeric :: "datetime \<Rightarrow> string \<Rightarrow> error + string" where
  "strftime_numeric dt template = Inr (render_numeric dt template)"


definition example_setting :: Setting where
  "example_setting =
     \<lparr>validation_name = ''orders'', validation_threshold = 5, validate_content_flag = False,
      defaulttimedelay = 0, source_name = None, destination_name = None,
      summary_log = ''/data/summary/%Y-%m/log'', granularity = Some Daily,
      validation_type = None\<rparr>"

definition example_source :: Datasource where
  "example_source =
     \<lparr>ds_type = File, database_config = None,
      file_config = Some \<lparr>file_format = Csv, path = ''/data/in/%Y/%m/%d'',
                          file_options = CsvOptions []\<rparr>\<rparr>"

definition example_target :: Datasource where
  "example_target =
     \<lparr>ds_type = Database,
      database_config = Some \<lparr>db_format = ''jdbc'',
         db_options = \<lparr>url = ''jdbc:postgresql://db/sales'', dbtable = None,
                       query = Some ''select * from orders where ym = %Y%m'', db_other = []\<rparr>\<rparr>,
      file_config = None\<rparr>"

definition example_config :: ValidationConfig where
  "example_config =
     \<lparr>args = \<lparr>config = ''config.xml'', datetime = Some ''2024-03-15 14:32:10'',
               verbose = False, spark_master = Local\<rparr>,
      setting = example_setting, source = example_source, target = example_target,
      process_datetime = None\<rparr>"

definition example_setting_kwargs :: Setting_kwargs where
  "example_setting_kwargs =
     \<lparr>kw_validation_name = Given ''orders'', kw_validation_threshold = Given 5,
      kw_validate_content = Omitted, kw_defaulttimedelay = Omitted, kw_source_name = Omitted,
      kw_destination_name = Omitted, kw_summary_log = Given ''/data/summary/%Y-%m/log'',
      kw_granularity = Given ''daily'', kw_validation_type = Omitted\<rparr>"


definition example_file_kwargs :: FileConfig_kwargs where
  "example_file_kwargs =
     \<lparr>kw_file_format = Given ''csv'', kw_path = Given ''/data/in/%Y/%m/%d'',
      kw_file_options = Omitted\<rparr>"

definition example_source_kwargs :: Datasource_kwargs where
  "example_source_kwargs =
     \<lparr>kw_type = Given ''file'', kw_database_config = Omitted,
      kw_file_config = Given (Some example_file_kwargs)\<rparr>"

definition example_target_kwargs :: Datasource_kwargs where
  "example_target_kwargs =
     \<lparr>kw_type = Given ''database'',
      kw_database_config = Given (Some
        \<lparr>kw_db_format = Given ''jdbc'',
         kw_db_options = Given \<lparr>kw_url = Given ''jdbc:postgresql://db/sales'',
            kw_dbtable = Omitted,
            kw_query = Given (Some ''select * from orders where ym = %Y%m''),
            kw_db_other = []\<rparr>\<rparr>),
      kw_file_config = Omitted\<rparr>"

definition example_kwargs :: ValidationConfig_kwargs where
  "example_kwargs =
     \<lparr>kw_args = \<lparr>config = ''config.xml'', datetime = Some ''2024-03-15 14:32:10'',
                  verbose = False, spark_master = Local\<rparr>,
      kw_setting = Given example_setting_kwargs,
      kw_source = Given example_source_kwargs,
      kw_target = Given example_target_kwargs\<rparr>"

definition fifteenth_of_march :: datetime where
  "fifteenth_of_march =
     \<lparr>year = 2024, month = 3, day = 15, hour = 0, minute = 0, second = 0, microsecond = 0\<rparr>"

definition example_resolved :: ValidationConfig where
  "example_resolved =
     \<lparr>args = \<lparr>config = ''config.xml'', datetime = Some ''2024-03-15 14:32:10'',
               verbose = False, spark_master = Local\<rparr>,
      setting = example_setting\<lparr>summary_log := ''/data/summary/2024-03/log''\<rparr>,
      source = \<lparr>ds_type = File, database_config = None,
        file_config = Some \<lparr>file_format = Csv, path = ''/data/in/2024/03/15'',
                            file_options = CsvOptions []\<rparr>\<rparr>,
      target = \<lparr>ds_type = Database,
        database_config = Some \<lparr>db_format = ''jdbc'',
          db_options = \<lparr>url = ''jdbc:postgresql://db/sales'', dbtable = None,
                        query = Some ''select * from orders where ym = 202403'',
                        db_other = []\<rparr>\<rparr>,
        file_config = None\<rparr>,
      process_datetime = Some fifteenth_of_march\<rparr>"

section \<open>Facts about the float model\<close>

lemma round_half_even_le: "of_int (round_half_even x) \<le> x + 1"
proof -
  have a: "of_int \<lfloor>x\<rfloor> \<le> x" by simp
  have "of_int (round_half_even x) \<le> of_int \<lfloor>x\<rfloor> + (1::rat)"
    by (simp add: round_half_even_def Let_def)
  with a show ?thesis by linarith
qed

lemma bitlen_le: 
  assumes "x < 2 ^ n" shows "bitlen x \<le> int n"
proof (cases "0 < x")
  case True
  then have "(2::int) ^ nat (bitlen x - 1) \<le> x" using bitlen_bounds by blast
  with assms have "(2::int) ^ nat (bitlen x - 1) < 2 ^ n" by linarith
  then have "nat (bitlen x - 1) < n" by simp
  then show ?thesis by linarith
next
  case False
  then have "bitlen x = 0" by (simp add: bitlen_eq_zero_iff)
  then show ?thesis by simp
qed

lemma floor_log2_le:
  assumes "0 < q" "q < 2 ^ n" shows "floor_log2 q \<le> int n"
proof (cases "1 \<le> q")
  case True
  have "\<lfloor>q\<rfloor> < 2 ^ n" using assms(2) by (simp add: floor_less_iff)
  then have "bitlen \<lfloor>q\<rfloor> \<le> int n" by (rule bitlen_le)
  with True show ?thesis by (simp add: floor_log2_def)
next
  case False
  then have "1 \<le> 1 / q" using assms(1) by simp
  then have "0 < \<lfloor>1 / q\<rfloor>" by linarith
  then have "1 \<le> bitlen \<lfloor>1 / q\<rfloor>" 
    using bitlen_eq_zero_iff [of "\<lfloor>1 / q\<rfloor>"] bitlen_nonneg [of "\<lfloor>1 / q\<rfloor>"] by linarith
  with False show ?thesis by (simp add: floor_log2_def Let_def)
qed

lemma round_double_no_overflow:
  assumes "q < 2 ^ 63" shows "round_double q < 2 ^ 1024"
proof (cases "q \<le> 0")
  case True
  then show ?thesis by (simp add: round_double_def)
next
  case False
  then have pos: "0 < q" by simp
  define e where "e = max (floor_log2 q - 52) (- 1074)"
  have "floor_log2 q \<le> 63" using floor_log2_le [OF pos assms] by simp
  then have e: "e \<le> 11" by (simp add: e_def)
  have p: "(2::rat) powi e \<le> 2 powi 11" 
    by (rule power_int_increasing) (use e in simp_all)
  have p0: "0 < (2::rat) powi e" by simp
  have "round_double q = of_int (round_half_even (q / 2 powi e)) * 2 powi e"
    using False by (simp add: round_double_def e_def Let_def)
  also have "\<dots> \<le> (q / 2 powi e + 1) * 2 powi e"
    using round_half_even_le [of "q / 2 powi e"] p0 by (simp only: mult_le_cancel_right_pos)
  also have "\<dots> = q + 2 powi e" using p0 by (simp add: field_simps)
  also have "\<dots> < 2 ^ 63 + 2 powi 11" using assms p by linarith
  also have "\<dots> < 2 ^ 1024" by simp
  finally show ?thesis .
qed


lemma py_truediv_in_range:
  assumes "0 < b" "(of_nat a :: rat) / of_nat b < 2 ^ 63"
  shows "py_truediv a b = Inr (Finite (round_double (of_nat a / of_nat b)))"
proof -
  have "round_double (of_nat a / of_nat b) < 2 ^ 1024"
    using assms(2) by (rule round_double_no_overflow)
  with assms(1) show ?thesis by (simp add: py_truediv_def Let_def)
qed

lemma count_ratio_bound:
  assumes "1 \<le> cs" "ct < 2 ^ 63"
  shows "(of_nat (nat \<bar>int cs - int ct\<bar>) :: rat) / of_nat cs < 2 ^ 63"
proof (cases "ct \<le> cs")
  case True
  then have "nat \<bar>int cs - int ct\<bar> \<le> cs" by simp
  then have "(of_nat (nat \<bar>int cs - int ct\<bar>) :: rat) \<le> of_nat cs"
    by (simp only: of_nat_le_iff)
  then have "(of_nat (nat \<bar>int cs - int ct\<bar>) :: rat) / of_nat cs \<le> 1"
    using assms(1) by (simp add: divide_le_eq)
  moreover have "(1::rat) < 2 ^ 63" by simp
  ultimately show ?thesis by linarith
next
  case False
  then have "nat \<bar>int cs - int ct\<bar> \<le> ct" by simp
  then have "(of_nat (nat \<bar>int cs - int ct\<bar>) :: rat) \<le> of_nat ct"
    by (simp only: of_nat_le_iff)
  moreover have "(of_nat (nat \<bar>int cs - int ct\<bar>) :: rat) / of_nat cs
      \<le> of_nat (nat \<bar>int cs - int ct\<bar>)"
    using assms(1) by (simp add: divide_le_eq mult_le_cancel_left1)
  moreover have "(of_nat ct :: rat) < 2 ^ 63"
    using assms(2) by (metis of_nat_less_iff of_nat_numeral of_nat_power)
  ultimately show ?thesis by linarith
qed

lemma round_double_3_100: "round_double (3 / 100) = 1080863910568919 / 36028797018963968"
  by code_simp

lemma percentage_3_100:
  "py_float_mul_int (Finite (1080863910568919 / 36028797018963968)) 100 = Finite 3"
  by code_simp

lemma round_double_20_100: "round_double (1 / 5) = 3602879701896397 / 18014398509481984"
  by code_simp

lemma percentage_20_100:
  "py_float_mul_int (Finite (3602879701896397 / 18014398509481984)) 100 = Finite 20"
  by code_simp

lemma round_double_7_100: "round_double (7 / 100) = 1261007895663739 / 18014398509481984"
  by code_simp

lemma percentage_7_100:
  "py_float_mul_int (Finite (1261007895663739 / 18014398509481984)) 100 =
     Finite (7881299347898369 / 1125899906842624)"
  by code_simp

section \<open>Row-count check: results\<close>

text \<open>
  C1. The claim: when the source has zero rows the row-count check completes without
  raising and returns a result with a defined \<open>percentage_diff\<close>, in particular for
  \<open>count_source = 0\<close> and \<open>count_target = 0\<close>. The code divides by \<open>count_source\<close>
  with no guard: for every source without rows, whatever the target and the threshold,
  \<^verbatim>\<open>validate_row_count\<close> raises \<open>ZeroDivisionError\<close> and returns no result.
\<close>

theorem validate_row_count_empty_source_raises:
  "validate_row_count \<lparr>columns = cols, rows = []\<rparr> df_target thr = Inl ZeroDivisionError"
  by (simp add: validate_row_count_def df_count_def py_truediv_def)

text \<open>
  C2. For every pair of datasets with \<open>count_source \<ge> 1\<close> and every integer threshold the
  row-count check returns \<open>count_diff = |count_source - count_target|\<close>,
  \<open>percentage_diff = count_diff / count_source * 100\<close> (the float division and the float
  multiplication of the code) and \<open>is_passed = (percentage_diff \<le> threshold)\<close>, a
  non-strict comparison. \<^verbatim>\<open>count()\<close> of the engine is a JVM long, so the target count
  is below \<open>2 ^ 63\<close>; that keeps the division inside the range of a float.
\<close>

theorem validate_row_count_result:
  assumes "1 \<le> df_count df_source" and "df_count df_target < 2 ^ 63"
  shows "validate_row_count df_source df_target thr =
     Inr \<lparr>count_source = df_count df_source,
          count_target = df_count df_target,
          count_diff = nat \<bar>int (df_count df_source) - int (df_count df_target)\<bar>,
          percentage_diff =
            py_float_mul_int
              (Finite (round_double
                 (of_nat (nat \<bar>int (df_count df_source) - int (df_count df_target)\<bar>)
                    / of_nat (df_count df_source)))) 100,
          threshold = thr,
          is_passed =
            py_float_le_int
              (py_float_mul_int
                 (Finite (round_double
                    (of_nat (nat \<bar>int (df_count df_source) - int (df_count df_target)\<bar>)
                       / of_nat (df_count df_source)))) 100) thr\<rparr>"
proof -
  have "0 < df_count df_source" using assms(1) by simp
  then have "py_truediv (nat \<bar>int (df_count df_source) - int (df_count df_target)\<bar>)
        (df_count df_source) =
      Inr (Finite (round_double
        (of_nat (nat \<bar>int (df_count df_source) - int (df_count df_target)\<bar>)
           / of_nat (df_count df_source))))"
    using count_ratio_bound [OF assms] by (rule py_truediv_in_range)
  then show ?thesis by (simp add: validate_row_count_def Let_def)
qed

theorem validate_row_count_result_witness:
  "validate_row_count \<lparr>columns = [''id''], rows = replicate 100 [Some ''a'']\<rparr>
       \<lparr>columns = [''id''], rows = replicate 97 [Some ''a'']\<rparr> 5 =
     Inr \<lparr>count_source = 100, count_target = 97, count_diff = 3,
          percentage_diff = Finite 3, threshold = 5, is_passed = True\<rparr>
   \<and> validate_row_count \<lparr>columns = [''id''], rows = replicate 100 [Some ''a'']\<rparr>
       \<lparr>columns = [''id''], rows = replicate 80 [Some ''a'']\<rparr> 5 =
     Inr \<lparr>count_source = 100, count_target = 80, count_diff = 20,
          percentage_diff = Finite 20, threshold = 5, is_passed = False\<rparr>"
  using validate_row_count_result
      [of "\<lparr>columns = [''id''], rows = replicate 100 [Some ''a'']\<rparr>"
          "\<lparr>columns = [''id''], rows = replicate 97 [Some ''a'']\<rparr>" 5]
    validate_row_count_result
      [of "\<lparr>columns = [''id''], rows = replicate 100 [Some ''a'']\<rparr>"
          "\<lparr>columns = [''id''], rows = replicate 80 [Some ''a'']\<rparr>" 5]
  by (simp add: df_count_def round_double_3_100 percentage_3_100
        round_double_20_100 percentage_20_100 del: py_float_mul_int.simps)

text \<open>
  The percentage is the rounded float, not the exact quotient: for 100 source rows and 93
  target rows \<^verbatim>\<open>7 / 100 * 100\<close> is \<open>7.000000000000001\<close>, and with threshold 7 the check
  does not pass.
\<close>

lemma validate_row_count_rounding:
  "validate_row_count \<lparr>columns = [''id''], rows = replicate 100 [Some ''a'']\<rparr>
       \<lparr>columns = [''id''], rows = replicate 93 [Some ''a'']\<rparr> 7 =
     Inr \<lparr>count_source = 100, count_target = 93, count_diff = 7,
          percentage_diff = Finite (7881299347898369 / 1125899906842624), threshold = 7,
          is_passed = False\<rparr>"
proof -
  have "(of_nat 7 :: rat) / of_nat 100 < 2 ^ 63" by simp
  then have "py_truediv 7 100 = Inr (Finite (round_double (7 / 100)))"
    using py_truediv_in_range [of 100 7] by simp
  then show ?thesis
    by (simp add: validate_row_count_def df_count_def round_double_7_100 percentage_7_100
        del: py_float_mul_int.simps)
qed

section \<open>Content check: results\<close>











text \<open>
  C4. When the column-name sequences differ, by name or by order, the content check
  returns without raising: it logs \<open>schema_match = false\<close>, both counts as N/A and
  \<open>validation passed = False\<close>, then the two schemas, and it calls no engine operation (no
  fingerprint, no set difference).
\<close>

theorem validate_content_schema_mismatch:
  assumes "columns df_source \<noteq> columns df_target"
  shows "validate_content df_source df_target =
     ([ContentResults \<lparr>schema_match = False, source_not_in_target = None,
                       target_not_in_source = None, validation_passed = False\<rparr>,
       SchemaDump (columns df_source), SchemaDump (columns df_target)],
      [])"
  using assms by (simp add: validate_content_def)

theorem validate_content_schema_mismatch_witness:
  "validate_content
      \<lparr>columns = [''id'', ''name''], rows = [[Some ''1'', Some ''a'']]\<rparr>
      \<lparr>columns = [''name'', ''id''], rows = [[Some ''a'', Some ''1'']]\<rparr> =
     ([ContentResults \<lparr>schema_match = False, source_not_in_target = None,
                       target_not_in_source = None, validation_passed = False\<rparr>,
       SchemaDump [''id'', ''name''], SchemaDump [''name'', ''id'']],
      [])"
  using validate_content_schema_mismatch
    [of "\<lparr>columns = [''id'', ''name''], rows = [[Some ''1'', Some ''a'']]\<rparr>"
        "\<lparr>columns = [''name'', ''id''], rows = [[Some ''a'', Some ''1'']]\<rparr>"]
  by simp

section \<open>Timestamps: results\<close>

text \<open>
  C6. Truncation is idempotent for every granularity (also for an unset one, which is
  truncated as hourly): truncating a truncated timestamp changes nothing.
\<close>

theorem truncate_datetime_idempotent:
  "truncate_datetime g (truncate_datetime g dt) = truncate_datetime g dt"
  by (simp add: truncate_datetime_def)

lemma strptime_example:
  "strptime ''2024-03-15 14:32:10'' =
     Inr \<lparr>year = 2024, month = 3, day = 15, hour = 14, minute = 32, second = 10,
          microsecond = 0\<rparr>"
  by (simp add: strptime_def match_format_def match_Y_def match_m_def match_d_def match_H_def
      match_M_def match_S_def alternatives_def two_digits_def digit_in_def digits_def
      literal_def spaces1_def is_space_def valid_datetime_def days_in_month_def is_leap_def)

text \<open>
  C5. With an override string the resolved \<open>process_datetime\<close> is the parsed override
  truncated by the granularity: monthly sets the day to 1 and zeroes the time of day, daily
  zeroes the time of day, hourly (and an unset granularity) zeroes minute, second and
  microsecond. \<^verbatim>\<open>2024-03-15 14:32:10\<close> with daily resolves to \<^verbatim>\<open>2024-03-15 00:00:00\<close>.
\<close>

theorem set_process_datetime_override:
  assumes "datetime (args values) = Some s" and "s \<noteq> []" and "strptime s = Inr dt"
  shows "set_process_datetime clock values =
     Inr (values\<lparr>process_datetime := Some
       (case granularity (setting values) of
          Some Monthly \<Rightarrow> dt\<lparr>day := 1, hour := 0, minute := 0, second := 0, microsecond := 0\<rparr>
        | Some Daily \<Rightarrow> dt\<lparr>hour := 0, minute := 0, second := 0, microsecond := 0\<rparr>
        | Some Hourly \<Rightarrow> dt\<lparr>minute := 0, second := 0, microsecond := 0\<rparr>
        | None \<Rightarrow> dt\<lparr>minute := 0, second := 0, microsecond := 0\<rparr>)\<rparr>)"
  using assms
  by (simp add: set_process_datetime_def initial_process_datetime_def truncate_datetime_def
      split: option.splits granularity.splits)

theorem set_process_datetime_override_witness:
  "\<forall>clock. set_process_datetime clock example_config =
     Inr (example_config\<lparr>process_datetime := Some
       \<lparr>year = 2024, month = 3, day = 15, hour = 0, minute = 0, second = 0,
        microsecond = 0\<rparr>\<rparr>)"
proof
  fix clock
  show "set_process_datetime clock example_config =
     Inr (example_config\<lparr>process_datetime := Some
       \<lparr>year = 2024, month = 3, day = 15, hour = 0, minute = 0, second = 0,
        microsecond = 0\<rparr>\<rparr>)"
    using set_process_datetime_override
      [of example_config "''2024-03-15 14:32:10''"
          "\<lparr>year = 2024, month = 3, day = 15, hour = 14, minute = 32, second = 10,
            microsecond = 0\<rparr>" clock]
    by (simp add: example_config_def example_setting_def strptime_example)
qed

lemma example_setting_valid: "Setting_validate example_setting_kwargs = Inr example_setting"
  by (simp add: Setting_validate_def example_setting_kwargs_def example_setting_def required_def
      threshold_field_def literal_default_None_def granularity_literal_def with_default_def)

text \<open>
  C10. Omitting \<open>granularity\<close> from an accepted Setting leaves it accepted, with
  \<open>granularity = None\<close>; and with an unset granularity the truncation is the hourly one:
  minute, second and microsecond are zero, the date and the hour are those of the
  untruncated timestamp.
\<close>

theorem granularity_omitted_is_hourly:
  "(Setting_validate kw = Inr s \<longrightarrow>
      Setting_validate (kw\<lparr>kw_granularity := Omitted\<rparr>) = Inr (s\<lparr>granularity := None\<rparr>))
   \<and> (granularity (setting values) = None \<longrightarrow> initial_process_datetime clock values = Inr t \<longrightarrow>
      set_process_datetime clock values =
        Inr (values\<lparr>process_datetime := Some (t\<lparr>minute := 0, second := 0, microsecond := 0\<rparr>)\<rparr>))"
proof (intro conjI impI)
  assume "Setting_validate kw = Inr s"
  then show "Setting_validate (kw\<lparr>kw_granularity := Omitted\<rparr>) = Inr (s\<lparr>granularity := None\<rparr>)"
    by (auto simp: Setting_validate_def literal_default_None_def split: sum.splits kwarg.splits option.splits)
next
  assume "granularity (setting values) = None" "initial_process_datetime clock values = Inr t"
  then show "set_process_datetime clock values =
        Inr (values\<lparr>process_datetime := Some (t\<lparr>minute := 0, second := 0, microsecond := 0\<rparr>)\<rparr>)"
    by (simp add: set_process_datetime_def truncate_datetime_def)
qed

theorem granularity_omitted_is_hourly_witness:
  "\<forall>clock. Setting_validate (example_setting_kwargs\<lparr>kw_granularity := Omitted\<rparr>) =
      Inr (example_setting\<lparr>granularity := None\<rparr>)
   \<and> set_process_datetime clock
        (example_config\<lparr>setting := example_setting\<lparr>granularity := None\<rparr>\<rparr>) =
      Inr (example_config\<lparr>setting := example_setting\<lparr>granularity := None\<rparr>,
             process_datetime := Some \<lparr>year = 2024, month = 3, day = 15, hour = 14, minute = 0,
                                       second = 0, microsecond = 0\<rparr>\<rparr>)"
proof
  fix clock
  show "Setting_validate (example_setting_kwargs\<lparr>kw_granularity := Omitted\<rparr>) =
      Inr (example_setting\<lparr>granularity := None\<rparr>)
   \<and> set_process_datetime clock
        (example_config\<lparr>setting := example_setting\<lparr>granularity := None\<rparr>\<rparr>) =
      Inr (example_config\<lparr>setting := example_setting\<lparr>granularity := None\<rparr>,
             process_datetime := Some \<lparr>year = 2024, month = 3, day = 15, hour = 14, minute = 0,
                                       second = 0, microsecond = 0\<rparr>\<rparr>)"
    using granularity_omitted_is_hourly
      [of example_setting_kwargs example_setting
          "example_config\<lparr>setting := example_setting\<lparr>granularity := None\<rparr>\<rparr>" clock
          "\<lparr>year = 2024, month = 3, day = 15, hour = 14, minute = 32, second = 10,
            microsecond = 0\<rparr>"]
    by (simp add: example_setting_valid initial_process_datetime_def example_config_def
        strptime_example)
qed

section \<open>Configuration models: results\<close>

text \<open>
  The construction of the example configuration, end to end: the keyword arguments are
  validated, the override \<^verbatim>\<open>2024-03-15 14:32:10\<close> is truncated to the day, and the summary
  log path, the source path and the target query are rendered.
\<close>

lemma example_source_valid: "Datasource_validate example_source_kwargs = Inr example_source"
  by (simp add: Datasource_validate_def check_target_config_def truthy_database_config_def
      truthy_file_config_def get_def example_source_kwargs_def example_file_kwargs_def
      example_source_def literal_required_def datasource_type_literal_def optional_model_def
      required_def FileConfig_validate_def file_format_literal_def set_file_options_def)

lemma example_target_valid: "Datasource_validate example_target_kwargs = Inr example_target"
  by (simp add: Datasource_validate_def check_target_config_def truthy_database_config_def
      truthy_file_config_def get_def example_target_kwargs_def example_target_def
      literal_required_def datasource_type_literal_def optional_model_def
      DatabaseConfig_validate_def DatabaseOptions_validate_def check_dbtable_or_query_def
      truthy_str_def required_def)

lemma example_process_datetime:
  "set_process_datetime clock example_config =
     Inr (example_config\<lparr>process_datetime := Some fifteenth_of_march\<rparr>)"
  by (simp add: set_process_datetime_def initial_process_datetime_def example_config_def
      example_setting_def strptime_example truncate_datetime_def fifteenth_of_march_def)

lemma render_march:
  "render_numeric fifteenth_of_march ''/data/summary/%Y-%m/log'' = ''/data/summary/2024-03/log''"
  "render_numeric fifteenth_of_march ''/data/in/%Y/%m/%d'' = ''/data/in/2024/03/15''"
  "render_numeric fifteenth_of_march ''select * from orders where ym = %Y%m'' =
     ''select * from orders where ym = 202403''"
  by (simp_all add: fifteenth_of_march_def directive_def four_digit_def two_digit_def digit_char_def)

lemma example_strftime:
  "set_strftime_string strftime_numeric (example_config\<lparr>process_datetime := Some fifteenth_of_march\<rparr>)
     = Inr example_resolved"
  by (simp add: set_strftime_string_def strftime_numeric_def render_query_def render_path_def
      example_config_def example_setting_def example_source_def example_target_def
      example_resolved_def render_march del: render_numeric.simps)

lemma example_construction:
  "ValidationConfig_validate clock strftime_numeric example_kwargs = Inr example_resolved"
proof -
  have c: "\<lparr>args = \<lparr>config = ''config.xml'', datetime = Some ''2024-03-15 14:32:10'',
                   verbose = False, spark_master = Local\<rparr>,
            setting = example_setting, source = example_source,
            target = example_target, process_datetime = None\<rparr> = example_config"
    by (simp add: example_config_def)
  show ?thesis
    by (simp add: ValidationConfig_validate_def example_kwargs_def example_setting_valid
        example_source_valid example_target_valid c example_process_datetime example_strftime)
qed

lemma set_strftime_string_setting:
  "set_strftime_string strftime v = Inr v' \<Longrightarrow>
     validation_threshold (setting v') = validation_threshold (setting v)"
  by (auto simp: set_strftime_string_def split: option.splits sum.splits)

lemma set_process_datetime_setting:
  "set_process_datetime clock v = Inr v' \<Longrightarrow> setting v' = setting v"
  by (auto simp: set_process_datetime_def split: sum.splits)

text \<open>
  C9, as the code has it. The claim: every \<open>validation_threshold\<close> outside \<open>[0, 100]\<close> is
  rejected. The field is declared \<^verbatim>\<open>Field(le=100)\<close>, an upper bound only: a threshold
  above 100 is rejected with pydantic's \<open>ValidationError\<close>, every accepted Setting and every
  constructed configuration has a threshold of at most 100, and a negative threshold is
  accepted.
\<close>

theorem threshold_above_100_rejected:
  "(kw_validation_threshold kw = Given t \<longrightarrow> 100 < t \<longrightarrow> Setting_validate kw = Inl ValidationError)
   \<and> (Setting_validate kw = Inr s \<longrightarrow> validation_threshold s \<le> 100)
   \<and> (ValidationConfig_validate clock strftime ckw = Inr v \<longrightarrow>
        validation_threshold (setting v) \<le> 100)"
proof (intro conjI impI)
  assume "kw_validation_threshold kw = Given t" "100 < t"
  then show "Setting_validate kw = Inl ValidationError"
    by (simp add: Setting_validate_def threshold_field_def split: sum.splits)
next
  assume "Setting_validate kw = Inr s"
  then show s: "validation_threshold s \<le> 100"
    by (auto simp: Setting_validate_def threshold_field_def split: sum.splits kwarg.splits if_splits)
next
  assume a: "ValidationConfig_validate clock strftime ckw = Inr v"
  then obtain skw s a0 b0 v0 where
    s: "Setting_validate skw = Inr s" and
    p: "set_process_datetime clock \<lparr>args = kw_args ckw, setting = s, source = a0, target = b0,
          process_datetime = None\<rparr> = Inr v0" and
    r: "set_strftime_string strftime v0 = Inr v"
    by (auto simp: ValidationConfig_validate_def split: kwarg.splits sum.splits)
  from s have "validation_threshold s \<le> 100"
    by (auto simp: Setting_validate_def threshold_field_def split: sum.splits kwarg.splits if_splits)
  moreover from p have "setting v0 = s" by (auto dest: set_process_datetime_setting)
  moreover from r have "validation_threshold (setting v) = validation_threshold (setting v0)"
    by (rule set_strftime_string_setting)
  ultimately show "validation_threshold (setting v) \<le> 100" by simp
qed

theorem threshold_above_100_rejected_witness:
  "\<forall>clock. Setting_validate (example_setting_kwargs\<lparr>kw_validation_threshold := Given 101\<rparr>) =
      Inl ValidationError
   \<and> Setting_validate example_setting_kwargs = Inr example_setting
   \<and> validation_threshold example_setting \<le> 100
   \<and> ValidationConfig_validate clock strftime_numeric example_kwargs = Inr example_resolved
   \<and> validation_threshold (setting example_resolved) \<le> 100"
proof
  fix clock
  show "Setting_validate (example_setting_kwargs\<lparr>kw_validation_threshold := Given 101\<rparr>) =
      Inl ValidationError
   \<and> Setting_validate example_setting_kwargs = Inr example_setting
   \<and> validation_threshold example_setting \<le> 100
   \<and> ValidationConfig_validate clock strftime_numeric example_kwargs = Inr example_resolved
   \<and> validation_threshold (setting example_resolved) \<le> 100"
    using threshold_above_100_rejected
        [of "example_setting_kwargs\<lparr>kw_validation_threshold := Given 101\<rparr>" 101]
      threshold_above_100_rejected
        [of example_setting_kwargs _ example_setting clock strftime_numeric example_kwargs
            example_resolved]
    by (simp add: example_setting_valid example_construction)
qed

text \<open>The claim C9 as stated fails: the threshold \<open>-1\<close> is accepted.\<close>

theorem threshold_negative_accepted:
  "Setting_validate (example_setting_kwargs\<lparr>kw_validation_threshold := Given (- 1)\<rparr>) =
     Inr (example_setting\<lparr>validation_threshold := - 1\<rparr>)"
  by (simp add: Setting_validate_def example_setting_kwargs_def example_setting_def required_def
      threshold_field_def literal_default_None_def granularity_literal_def with_default_def)
















end
